theory Spec2Isabelle
  imports Complex_Main "HOL-Library.Sublist"
begin

section \<open>The nmap tool server of \<^verbatim>\<open>src/index.ts\<close>\<close>

text \<open>
  The server exposes one tool, \<^verbatim>\<open>run_nmap_scan\<close>. A call is validated against
  \<^verbatim>\<open>NmapScanSchema\<close>, compiled into one shell command by \<^verbatim>\<open>runNmapScan\<close>, run through
  the promisified \<^verbatim>\<open>exec\<close>, and answered with a result envelope.

  JavaScript strings are modelled as \<^typ>\<open>string\<close>, template literals and \<^verbatim>\<open>+=\<close> as
  \<open>@\<close>, and the truthiness of a string as being non-empty.
\<close>

subsection \<open>Request payloads\<close>

text \<open>
  The argument payload of a call is parsed JSON. A number is modelled by its exact value
  (\<^verbatim>\<open>NaN\<close> and the infinities cannot come out of JSON text, and \<^verbatim>\<open>-0\<close> is treated as
  \<open>0\<close>, which it equals in every comparison and in its text). An object is the list of
  its properties; \<open>map_of\<close> reads one, \<open>None\<close> standing for \<^verbatim>\<open>undefined\<close>.
\<close>

datatype json =
    JNull
  | JBool bool
  | JNum rat
  | JStr string
  | JArr "json list"
  | JObj "(string \<times> json) list"

text \<open>The type names zod reports for a value (\<^verbatim>\<open>getParsedType\<close>).\<close>

datatype parsed_type =
  T_undefined | T_null | T_boolean | T_number | T_string | T_array | T_object

fun getParsedType :: "json option \<Rightarrow> parsed_type" where
  "getParsedType None = T_undefined"
| "getParsedType (Some JNull) = T_null"
| "getParsedType (Some (JBool _)) = T_boolean"
| "getParsedType (Some (JNum _)) = T_number"
| "getParsedType (Some (JStr _)) = T_string"
| "getParsedType (Some (JArr _)) = T_array"
| "getParsedType (Some (JObj _)) = T_object"

subsection \<open>The schema combinators used by \<^verbatim>\<open>NmapScanSchema\<close>\<close>

text \<open>
  A zod schema is modelled as a function from the value at hand to either the list of
  issues it raises or the parsed value. An issue records what went wrong (for a wrong
  type: what was expected and the type received; an enum reports a wrong type with its
  list of names); the object schema adds the path (the field's name).
\<close>

datatype issue_code =
    Invalid_type string parsed_type
  | Enum_invalid_type "string list" parsed_type
  | Invalid_enum_value "string list" string
  | Too_small rat
  | Too_big rat

datatype issue = Issue (path: "string list") (code: issue_code)

type_synonym 'a schema = "json option \<Rightarrow> issue_code list + 'a"

text \<open>\<^verbatim>\<open>z.string()\<close>: any string, the empty one included.\<close>

fun z_string :: "string schema" where
  "z_string (Some (JStr s)) = Inr s"
| "z_string v = Inl [Invalid_type ''string'' (getParsedType v)]"

text \<open>
  \<^verbatim>\<open>z.number().min(lo).max(hi)\<close>: the value must be a number; then every check runs
  and each failing one adds its issue. There is no \<^verbatim>\<open>.int()\<close> check in the list.
\<close>

datatype number_check = Min rat | Max rat

fun run_check :: "rat \<Rightarrow> number_check \<Rightarrow> issue_code list" where
  "run_check x (Min lo) = (if x < lo then [Too_small lo] else [])"
| "run_check x (Max hi) = (if x > hi then [Too_big hi] else [])"

fun z_number :: "number_check list \<Rightarrow> rat schema" where
  "z_number checks (Some (JNum x)) =
     (let found = concat (map (run_check x) checks)
      in if found = [] then Inr x else Inl found)"
| "z_number checks v = Inl [Invalid_type ''number'' (getParsedType v)]"

text \<open>
  \<^verbatim>\<open>z.enum([...])\<close>: a string that is one of the listed names. The names are paired with
  the constructors of the type the parsed value has.
\<close>

fun z_enum :: "(string \<times> 'a) list \<Rightarrow> 'a schema" where
  "z_enum vals (Some (JStr s)) =
     (case map_of vals s of
        Some c \<Rightarrow> Inr c
      | None \<Rightarrow> Inl [Invalid_enum_value (map fst vals) s])"
| "z_enum vals v = Inl [Enum_invalid_type (map fst vals) (getParsedType v)]"

text \<open>\<^verbatim>\<open>.optional()\<close> and \<^verbatim>\<open>.default(d)\<close> act on \<^verbatim>\<open>undefined\<close> only (not on \<^verbatim>\<open>null\<close>).\<close>

fun z_optional :: "'a schema \<Rightarrow> 'a option schema" where
  "z_optional s None = Inr None"
| "z_optional s (Some v) = map_sum id Some (s (Some v))"

fun z_default :: "'a schema \<Rightarrow> 'a \<Rightarrow> 'a schema" where
  "z_default s d None = Inr d"
| "z_default s d (Some v) = s (Some v)"

text \<open>A field of an object schema: the schema runs on the property, issues get the path.\<close>

definition field :: "string \<Rightarrow> 'a schema \<Rightarrow> (string \<times> json) list \<Rightarrow> issue list + 'a" where
  "field key s props = map_sum (map (Issue [key])) id (s (map_of props key))"

fun issues_of :: "issue list + 'a \<Rightarrow> issue list" where
  "issues_of (Inl found) = found"
| "issues_of (Inr _) = []"

subsection \<open>\<^verbatim>\<open>NmapScanSchema\<close> (lines 13 to 19)\<close>

datatype scan_type = Quick | Full | Version

record ScanConfiguration =
  target :: string
  ports :: "string option"
  scanType :: scan_type
  timing :: rat
  additionalFlags :: "string option"

definition scanType_values :: "(string \<times> scan_type) list" where
  "scanType_values = [(''quick'', Quick), (''full'', Full), (''version'', Version)]"

definition target_schema :: "string schema" where
  "target_schema = z_string"

definition ports_schema :: "string option schema" where
  "ports_schema = z_optional z_string"

definition scanType_schema :: "scan_type schema" where
  "scanType_schema = z_default (z_enum scanType_values) Quick"

definition timing_schema :: "rat schema" where
  "timing_schema = z_default (z_number [Min 0, Max 5]) 3"

definition additionalFlags_schema :: "string option schema" where
  "additionalFlags_schema = z_optional z_string"

text \<open>
  \<^verbatim>\<open>NmapScanSchema.safeParse(args)\<close>. A \<^verbatim>\<open>z.object\<close> rejects what is not an object with
  one issue at the empty path; on an object it parses every field of the shape, in the
  order of the shape, and gathers the issues of all of them. Unknown properties are
  dropped.
\<close>

fun NmapScanSchema_safeParse :: "json option \<Rightarrow> issue list + ScanConfiguration" where
  "NmapScanSchema_safeParse (Some (JObj props)) =
     (let t = field ''target'' target_schema props;
          p = field ''ports'' ports_schema props;
          s = field ''scanType'' scanType_schema props;
          n = field ''timing'' timing_schema props;
          a = field ''additionalFlags'' additionalFlags_schema props
      in case (t, p, s, n, a) of
           (Inr t', Inr p', Inr s', Inr n', Inr a') \<Rightarrow>
             Inr \<lparr>target = t', ports = p', scanType = s', timing = n', additionalFlags = a'\<rparr>
         | _ \<Rightarrow>
             Inl (issues_of t @ issues_of p @ issues_of s @ issues_of n @ issues_of a))"
| "NmapScanSchema_safeParse v = Inl [Issue [] (Invalid_type ''object'' (getParsedType v))]"

subsection \<open>The platform\<close>

text \<open>
  What the program takes from its runtime is a parameter of the model:
  \<^item> \<open>number_text\<close>: the text of a number that is not a whole number below \<open>10^21\<close>
    (the shortest decimal that reads back as the same double). Whatever the digits are,
    JavaScript writes such a number with digits, a point, a sign and the exponent mark
    only, so the text is a list of those;
  \<^item> \<open>spawn\<close>: what happens when a command line is handed to the shell.
\<close>

datatype num_char = Digit nat | Point | Minus | Plus | Exponent

datatype exit_status = Code int | Signal string

datatype process_outcome =
    Errored string
  | Exited exit_status string string

record platform =
  number_text :: "rat \<Rightarrow> num_char list"
  spawn :: "string \<Rightarrow> process_outcome"

text \<open>A thrown value: an \<^verbatim>\<open>Error\<close> with its message, or anything else with its \<^verbatim>\<open>String()\<close>.\<close>

datatype thrown = Error_object string | Other_value string

fun errorMessage :: "thrown \<Rightarrow> string" where
  "errorMessage (Error_object m) = m"
| "errorMessage (Other_value s) = s"

datatype exec_result = Resolved string string | Rejected thrown

text \<open>
  \<^verbatim>\<open>execAsync = promisify(exec)\<close> (line 10). Node's \<^verbatim>\<open>exec\<close> calls back without an error
  only when the child exits with code 0 and no signal. A child that cannot be started, or
  whose output overflows the buffer, gives that error (\<open>Errored\<close>); any other exit gives
  an \<^verbatim>\<open>Error\<close> whose message is \<^verbatim>\<open>Command failed: \<close> followed by the command, a newline
  and the captured standard error. The promise resolves with both streams or rejects with
  the error.
\<close>

definition execAsync :: "platform \<Rightarrow> string \<Rightarrow> exec_result" where
  "execAsync pf command =
     (case spawn pf command of
        Errored m \<Rightarrow> Rejected (Error_object m)
      | Exited st out err \<Rightarrow>
          if st = Code 0 then Resolved out err
          else Rejected (Error_object (''Command failed: '' @ command @ [CHR 0x0A] @ err)))"

subsection \<open>Numbers in template literals\<close>

definition digit_char :: "nat \<Rightarrow> char" where
  "digit_char d = ''0123456789'' ! d"

function nat_text :: "nat \<Rightarrow> string" where
  "nat_text n = (if n < 10 then [digit_char n] else nat_text (n div 10) @ [digit_char (n mod 10)])"
  by pat_completeness auto
termination
  by (relation "measure id") auto

declare nat_text.simps [simp del]

definition int_text :: "int \<Rightarrow> string" where
  "int_text i = (if i < 0 then CHR ''-'' # nat_text (nat (- i)) else nat_text (nat i))"

definition whole :: "rat \<Rightarrow> bool" where
  "whole x = (of_int \<lfloor>x\<rfloor> = x)"

fun num_char_text :: "num_char \<Rightarrow> char" where
  "num_char_text (Digit d) = digit_char (d mod 10)"
| "num_char_text Point = CHR ''.''"
| "num_char_text Minus = CHR ''-''"
| "num_char_text Plus = CHR ''+''"
| "num_char_text Exponent = CHR ''e''"

text \<open>
  \<^verbatim>\<open>${timing}\<close>: a whole number below \<open>10^21\<close> in size is written in decimal digits;
  every other number is written as the platform does.
\<close>

definition Number_toString :: "platform \<Rightarrow> rat \<Rightarrow> string" where
  "Number_toString pf x =
     (if whole x \<and> \<bar>x\<bar> < 10 ^ 21 then int_text \<lfloor>x\<rfloor>
      else map num_char_text (number_text pf x))"

subsection \<open>The text of a validation error\<close>

text \<open>
  \<^verbatim>\<open>${parsed.error}\<close> (line 94) is the \<^verbatim>\<open>ZodError\<close>'s \<^verbatim>\<open>toString()\<close>, which in zod 3 is its
  \<^verbatim>\<open>message\<close>: \<^verbatim>\<open>JSON.stringify(this.issues, replacer, 2)\<close>. First \<^verbatim>\<open>JSON.stringify\<close> with an
  indentation of two spaces: strings are quoted and escaped, an empty array or object is
  written closed, and the items of any other sit one to a line, one level deeper.
\<close>

definition hex_char :: "nat \<Rightarrow> char" where
  "hex_char d = ''0123456789abcdef'' ! d"

definition escape_char :: "char \<Rightarrow> string" where
  "escape_char c =
     (if c = CHR 0x22 then [CHR 0x5C, CHR 0x22]
      else if c = CHR 0x5C then [CHR 0x5C, CHR 0x5C]
      else if c = CHR 0x08 then [CHR 0x5C, CHR ''b'']
      else if c = CHR 0x0C then [CHR 0x5C, CHR ''f'']
      else if c = CHR 0x0A then [CHR 0x5C, CHR ''n'']
      else if c = CHR 0x0D then [CHR 0x5C, CHR ''r'']
      else if c = CHR 0x09 then [CHR 0x5C, CHR ''t'']
      else if (of_char c :: nat) < 32 then
        [CHR 0x5C, CHR ''u'', CHR ''0'', CHR ''0'',
         hex_char ((of_char c :: nat) div 16), hex_char ((of_char c :: nat) mod 16)]
      else [c])"

definition QuoteJSONString :: "string \<Rightarrow> string" where
  "QuoteJSONString s = [CHR 0x22] @ concat (map escape_char s) @ [CHR 0x22]"

fun join :: "string \<Rightarrow> string list \<Rightarrow> string" where
  "join sep [] = []"
| "join sep [x] = x"
| "join sep (x # xs) = x @ sep @ join sep xs"

fun JSON_stringify :: "platform \<Rightarrow> string \<Rightarrow> json \<Rightarrow> string" where
  "JSON_stringify pf ind JNull = ''null''"
| "JSON_stringify pf ind (JBool b) = (if b then ''true'' else ''false'')"
| "JSON_stringify pf ind (JNum x) = Number_toString pf x"
| "JSON_stringify pf ind (JStr s) = QuoteJSONString s"
| "JSON_stringify pf ind (JArr vs) =
     (if vs = [] then ''[]''
      else ''['' @ [CHR 0x0A] @ ind @ ''  ''
        @ join ('','' @ [CHR 0x0A] @ ind @ ''  '') (map (JSON_stringify pf (ind @ ''  '')) vs)
        @ [CHR 0x0A] @ ind @ '']'')"
| "JSON_stringify pf ind (JObj ms) =
     (if ms = [] then ''{}''
      else ''{'' @ [CHR 0x0A] @ ind @ ''  ''
        @ join ('','' @ [CHR 0x0A] @ ind @ ''  '')
            (map (\<lambda>m. QuoteJSONString (fst m) @ '': '' @ JSON_stringify pf (ind @ ''  '') (snd m)) ms)
        @ [CHR 0x0A] @ ind @ ''}'')"

text \<open>
  The issue objects. Each parser hands its own members over in its own order
  (\<^verbatim>\<open>addIssueToContext\<close>); \<^verbatim>\<open>makeIssue\<close> then sets \<^verbatim>\<open>path\<close> and \<^verbatim>\<open>message\<close>, the message being
  the one of zod's default error map. The number checks pass a \<^verbatim>\<open>message\<close> member of their
  own (undefined here), so there the message keeps its place before the path.
\<close>

fun parsed_type_name :: "parsed_type \<Rightarrow> string" where
  "parsed_type_name T_undefined = ''undefined''"
| "parsed_type_name T_null = ''null''"
| "parsed_type_name T_boolean = ''boolean''"
| "parsed_type_name T_number = ''number''"
| "parsed_type_name T_string = ''string''"
| "parsed_type_name T_array = ''array''"
| "parsed_type_name T_object = ''object''"

definition joinValues :: "string list \<Rightarrow> string" where
  "joinValues vals = join '' | '' (map (\<lambda>v. [CHR 0x27] @ v @ [CHR 0x27]) vals)"

definition invalid_type_message :: "string \<Rightarrow> parsed_type \<Rightarrow> string" where
  "invalid_type_message expected received =
     (if received = T_undefined then ''Required''
      else ''Expected '' @ expected @ '', received '' @ parsed_type_name received)"

fun makeIssue :: "platform \<Rightarrow> issue \<Rightarrow> json" where
  "makeIssue pf (Issue p (Invalid_type expected received)) =
     JObj [(''code'', JStr ''invalid_type''),
           (''expected'', JStr expected),
           (''received'', JStr (parsed_type_name received)),
           (''path'', JArr (map JStr p)),
           (''message'', JStr (invalid_type_message expected received))]"
| "makeIssue pf (Issue p (Enum_invalid_type options received)) =
     JObj [(''expected'', JStr (joinValues options)),
           (''received'', JStr (parsed_type_name received)),
           (''code'', JStr ''invalid_type''),
           (''path'', JArr (map JStr p)),
           (''message'', JStr (invalid_type_message (joinValues options) received))]"
| "makeIssue pf (Issue p (Invalid_enum_value options received)) =
     JObj [(''received'', JStr received),
           (''code'', JStr ''invalid_enum_value''),
           (''options'', JArr (map JStr options)),
           (''path'', JArr (map JStr p)),
           (''message'', JStr (''Invalid enum value. Expected '' @ joinValues options
              @ '', received '' @ [CHR 0x27] @ received @ [CHR 0x27]))]"
| "makeIssue pf (Issue p (Too_small minimum)) =
     JObj [(''code'', JStr ''too_small''),
           (''minimum'', JNum minimum),
           (''type'', JStr ''number''),
           (''inclusive'', JBool True),
           (''exact'', JBool False),
           (''message'', JStr (''Number must be greater than or equal to ''
              @ Number_toString pf minimum)),
           (''path'', JArr (map JStr p))]"
| "makeIssue pf (Issue p (Too_big maximum)) =
     JObj [(''code'', JStr ''too_big''),
           (''maximum'', JNum maximum),
           (''type'', JStr ''number''),
           (''inclusive'', JBool True),
           (''exact'', JBool False),
           (''message'', JStr (''Number must be less than or equal to ''
              @ Number_toString pf maximum)),
           (''path'', JArr (map JStr p))]"

definition ZodError_toString :: "platform \<Rightarrow> issue list \<Rightarrow> string" where
  "ZodError_toString pf found = JSON_stringify pf [] (JArr (map (makeIssue pf) found))"

subsection \<open>\<^verbatim>\<open>runNmapScan\<close> (lines 30 to 72)\<close>

text \<open>The value of \<^verbatim>\<open>command\<close> after line 60, built by the appends of lines 34 to 60.\<close>

fun scanType_flag :: "scan_type \<Rightarrow> string" where
  "scanType_flag Quick = '' -F''"
| "scanType_flag Full = '' -p-''"
| "scanType_flag Version = '' -sV''"

definition ports_part :: "string option \<Rightarrow> string" where
  "ports_part ps = (case ps of Some p \<Rightarrow> if p \<noteq> [] then '' -p'' @ p else [] | None \<Rightarrow> [])"

definition additionalFlags_part :: "string option \<Rightarrow> string" where
  "additionalFlags_part fs = (case fs of Some f \<Rightarrow> if f \<noteq> [] then '' '' @ f else [] | None \<Rightarrow> [])"

definition nmap_command :: "platform \<Rightarrow> ScanConfiguration \<Rightarrow> string" where
  "nmap_command pf params =
     (let command = ''nmap -T'' @ Number_toString pf (timing params);
          command = command @ scanType_flag (scanType params);
          command = command @ ports_part (ports params);
          command = command @ additionalFlags_part (additionalFlags params);
          command = command @ '' '' @ target params
      in command)"

text \<open>
  What a request leaves behind: the command lines handed to \<^verbatim>\<open>execAsync\<close>, and the lines
  written with \<^verbatim>\<open>console.error\<close>.
\<close>

record world =
  launched :: "string list"
  diagnostics :: "string list"

definition runNmapScan ::
  "platform \<Rightarrow> ScanConfiguration \<Rightarrow> world \<Rightarrow> (thrown + string) \<times> world" where
  "runNmapScan pf params w =
     (let command = nmap_command pf params;
          w1 = w\<lparr>launched := launched w @ [command]\<rparr>
      in case execAsync pf command of
           Resolved stdout stderr \<Rightarrow>
             (Inr stdout,
              if stderr \<noteq> [] then w1\<lparr>diagnostics := diagnostics w1 @ [''Nmap stderr: '' @ stderr]\<rparr>
              else w1)
         | Rejected error \<Rightarrow>
             (Inl (Error_object (''Nmap scan failed: '' @ errorMessage error)), w1))"

subsection \<open>The \<^verbatim>\<open>CallToolRequestSchema\<close> handler (lines 87 to 116)\<close>

record request =
  name :: string
  arguments :: "json option"

record text_content =
  ctype :: string
  ctext :: string

record tool_result =
  content :: "text_content list"
  isError :: bool

text \<open>The body of the \<^verbatim>\<open>try\<close> block: a returned envelope, or the value thrown.\<close>

definition call_tool_body :: "platform \<Rightarrow> request \<Rightarrow> world \<Rightarrow> (thrown + tool_result) \<times> world" where
  "call_tool_body pf req w =
     (if name req = ''run_nmap_scan'' then
        (case NmapScanSchema_safeParse (arguments req) of
           Inl found \<Rightarrow>
             (Inl (Error_object
                (''Invalid arguments for run_nmap_scan: '' @ ZodError_toString pf found)), w)
         | Inr data \<Rightarrow>
             (case runNmapScan pf data w of
                (Inl error, w') \<Rightarrow> (Inl error, w')
              | (Inr result, w') \<Rightarrow>
                  (Inr \<lparr>content = [\<lparr>ctype = ''text'', ctext = result\<rparr>], isError = False\<rparr>, w')))
      else (Inl (Error_object (''Unknown tool: '' @ name req)), w))"

definition call_tool :: "platform \<Rightarrow> request \<Rightarrow> world \<Rightarrow> tool_result \<times> world" where
  "call_tool pf req w =
     (case call_tool_body pf req w of
        (Inr res, w') \<Rightarrow> (res, w')
      | (Inl error, w') \<Rightarrow>
          (\<lparr>content = [\<lparr>ctype = ''text'', ctext = ''Error: '' @ errorMessage error\<rparr>], isError = True\<rparr>, w'))"

section \<open>Vocabulary of the properties\<close>

subsection \<open>The command as the specification words it\<close>

text \<open>
  The specification's compilation sequence read literally: the program name with the
  timing flag, the strategy flag, the port flag when \<^verbatim>\<open>ports\<close> is present, the extra
  flags when \<^verbatim>\<open>additionalFlags\<close> is present, the target last. A field is present when
  the configuration has it, whatever string it holds.
\<close>

definition spec_command :: "platform \<Rightarrow> ScanConfiguration \<Rightarrow> string" where
  "spec_command pf params =
     ''nmap -T'' @ Number_toString pf (timing params)
     @ (case scanType params of Quick \<Rightarrow> '' -F'' | Full \<Rightarrow> '' -p-'' | Version \<Rightarrow> '' -sV'')
     @ (case ports params of Some p \<Rightarrow> '' -p'' @ p | None \<Rightarrow> [])
     @ (case additionalFlags params of Some f \<Rightarrow> '' '' @ f | None \<Rightarrow> [])
     @ '' '' @ target params"

subsection \<open>The words the shell hands to nmap\<close>









subsection \<open>Constraints of the fields\<close>

text \<open>The property of a payload under a key; a payload that is no object has none.\<close>

fun property :: "json option \<Rightarrow> string \<Rightarrow> json option" where
  "property (Some (JObj props)) key = map_of props key"
| "property _ key = None"

text \<open>
  The timing values the schema lets through, read off line 17: no value (the default 3
  then stands in), or a number from 0 to 5.
\<close>

fun timing_acceptable :: "json option \<Rightarrow> bool" where
  "timing_acceptable None = True"
| "timing_acceptable (Some (JNum x)) = (0 \<le> x \<and> x \<le> 5)"
| "timing_acceptable (Some _) = False"

fun timing_value :: "json option \<Rightarrow> rat" where
  "timing_value (Some (JNum x)) = x"
| "timing_value _ = 3"

text \<open>A target the schema lets through: a string.\<close>

fun target_acceptable :: "json option \<Rightarrow> bool" where
  "target_acceptable (Some (JStr s)) = True"
| "target_acceptable _ = False"





subsection \<open>Envelopes and a platform for the examples\<close>

definition error_result :: "string \<Rightarrow> tool_result" where
  "error_result msg = \<lparr>content = [\<lparr>ctype = ''text'', ctext = msg\<rparr>], isError = True\<rparr>"

definition success_result :: "string \<Rightarrow> tool_result" where
  "success_result out = \<lparr>content = [\<lparr>ctype = ''text'', ctext = out\<rparr>], isError = False\<rparr>"

text \<open>
  The examples run on a platform whose shell always ends the same way. It writes a number
  that is not whole as its integer part and \<^verbatim>\<open>.5\<close> (the examples use halves below 10 only).
\<close>

definition example_platform :: "process_outcome \<Rightarrow> platform" where
  "example_platform outcome =
     \<lparr>number_text = (\<lambda>x. [Digit (nat \<lfloor>x\<rfloor>), Point, Digit 5]),
      spawn = (\<lambda>command. outcome)\<rparr>"

definition fresh :: world where
  "fresh = \<lparr>launched = [], diagnostics = []\<rparr>"

definition scan_request :: "(string \<times> json) list \<Rightarrow> request" where
  "scan_request props = \<lparr>name = ''run_nmap_scan'', arguments = Some (JObj props)\<rparr>"

section \<open>Facts about the model\<close>

lemmas schema_defs = field_def target_schema_def ports_schema_def scanType_schema_def
  timing_schema_def additionalFlags_schema_def scanType_values_def

lemmas text_defs = Number_toString_def whole_def int_text_def nat_text.simps digit_char_def

lemmas run_defs = call_tool_def call_tool_body_def runNmapScan_def execAsync_def
  example_platform_def scan_request_def fresh_def error_result_def success_result_def
  nmap_command_def ports_part_def additionalFlags_part_def

subsection \<open>Decimal digits and shell words\<close>










lemma whole_of_nat: "whole (of_nat n)"
  by (simp add: whole_def)

lemma Number_toString_small: "n < 10 \<Longrightarrow> Number_toString pf (of_nat n) = [digit_char n]"
proof -
  assume n: "n < 10"
  then have "(of_nat n :: rat) < 10" by (metis of_nat_less_iff of_nat_numeral)
  then have "\<bar>of_nat n :: rat\<bar> < 10 ^ 21" by simp
  then show ?thesis using n
    by (simp add: Number_toString_def whole_of_nat int_text_def nat_text.simps [of n])
qed








subsection \<open>What the schema accepts\<close>

lemma field_Inr: "field k s props = Inr v \<longleftrightarrow> s (map_of props k) = Inr v"
  by (cases "s (map_of props k)") (simp_all add: field_def)

lemma field_Inl:
  "field k s props = Inl found \<longleftrightarrow> (\<exists>cs. s (map_of props k) = Inl cs \<and> found = map (Issue [k]) cs)"
  by (cases "s (map_of props k)") (auto simp: field_def)

lemma safeParse_not_object:
  "NmapScanSchema_safeParse args = Inr params \<Longrightarrow> \<exists>props. args = Some (JObj props)"
  by (cases args rule: NmapScanSchema_safeParse.cases) simp_all

lemma safeParse_Inr_iff:
  "NmapScanSchema_safeParse (Some (JObj props)) = Inr params \<longleftrightarrow>
     target_schema (map_of props ''target'') = Inr (target params)
   \<and> ports_schema (map_of props ''ports'') = Inr (ports params)
   \<and> scanType_schema (map_of props ''scanType'') = Inr (scanType params)
   \<and> timing_schema (map_of props ''timing'') = Inr (timing params)
   \<and> additionalFlags_schema (map_of props ''additionalFlags'') = Inr (additionalFlags params)"
  by (cases params) (auto simp: Let_def field_Inr field_Inl split: sum.splits)

lemma timing_schema_Inr:
  "timing_schema v = Inr x \<longleftrightarrow> timing_acceptable v \<and> x = timing_value v"
  by (cases v rule: timing_acceptable.cases) (auto simp: timing_schema_def Let_def)

lemma target_schema_Inr:
  "target_schema v = Inr s \<longleftrightarrow> v = Some (JStr s)"
  by (cases v rule: z_string.cases) (auto simp: target_schema_def)

lemma safeParse_timing:
  assumes "NmapScanSchema_safeParse args = Inr params"
  shows "timing_acceptable (property args ''timing'')
     \<and> timing params = timing_value (property args ''timing'')"
  using assms safeParse_not_object [OF assms]
  by (auto simp: safeParse_Inr_iff timing_schema_Inr simp del: NmapScanSchema_safeParse.simps)

lemma safeParse_target:
  assumes "NmapScanSchema_safeParse args = Inr params"
  shows "property args ''target'' = Some (JStr (target params))"
  using assms safeParse_not_object [OF assms]
  by (auto simp: safeParse_Inr_iff target_schema_Inr simp del: NmapScanSchema_safeParse.simps)

lemma call_tool_invalid:
  assumes "NmapScanSchema_safeParse (arguments req) = Inl found"
  shows "call_tool pf req w =
    (error_result (''Error: '' @ (if name req = ''run_nmap_scan''
        then ''Invalid arguments for run_nmap_scan: '' @ ZodError_toString pf found
        else ''Unknown tool: '' @ name req)), w)"
  using assms by (simp add: call_tool_def call_tool_body_def error_result_def)

lemma call_tool_valid:
  assumes "name req = ''run_nmap_scan''"
    and "NmapScanSchema_safeParse (arguments req) = Inr params"
  shows "call_tool pf req w =
    (case execAsync pf (nmap_command pf params) of
       Resolved out err \<Rightarrow>
         (success_result out,
          w\<lparr>launched := launched w @ [nmap_command pf params],
            diagnostics := diagnostics w @ (if err \<noteq> [] then [''Nmap stderr: '' @ err] else [])\<rparr>)
     | Rejected e \<Rightarrow>
         (error_result (''Error: Nmap scan failed: '' @ errorMessage e),
          w\<lparr>launched := launched w @ [nmap_command pf params]\<rparr>))"
  using assms
  by (simp add: call_tool_def call_tool_body_def runNmapScan_def Let_def error_result_def
      success_result_def split: exec_result.splits)

subsection \<open>The schema against the constraints\<close>


















subsection \<open>Field names in the text of a validation error\<close>









section \<open>The claims\<close>

text \<open>
  C1 (as amended). The compiled command is a function of the configuration: for every
  configuration it is the concatenation, in this order, of \<^verbatim>\<open>nmap -T<timing>\<close>, the
  strategy flag of \<^verbatim>\<open>scanType\<close>, \<^verbatim>\<open> -p<ports>\<close> if \<^verbatim>\<open>ports\<close> is present and not the empty
  string, \<^verbatim>\<open> <additionalFlags>\<close> if \<^verbatim>\<open>additionalFlags\<close> is present and not the empty string,
  and \<^verbatim>\<open> <target>\<close> last.
\<close>

theorem nmap_command_follows_sequence:
  "nmap_command pf params =
     ''nmap -T'' @ Number_toString pf (timing params)
     @ (case scanType params of Quick \<Rightarrow> '' -F'' | Full \<Rightarrow> '' -p-'' | Version \<Rightarrow> '' -sV'')
     @ (case ports params of Some p \<Rightarrow> (if p = [] then [] else '' -p'' @ p) | None \<Rightarrow> [])
     @ (case additionalFlags params of Some f \<Rightarrow> (if f = [] then [] else '' '' @ f) | None \<Rightarrow> [])
     @ '' '' @ target params"
  by (cases "scanType params")
     (simp_all add: nmap_command_def ports_part_def additionalFlags_part_def split: option.splits)

text \<open>
  The sequence as the claim words it appends the port flag whenever \<^verbatim>\<open>ports\<close> is present.
  The code tests the string's truthiness: with \<^verbatim>\<open>ports\<close> present and empty the specification's
  sequence has a bare \<^verbatim>\<open> -p\<close> that the compiled command lacks.
\<close>

theorem empty_ports_counterexample:
  "nmap_command (example_platform (Exited (Code 0) [] []))
     \<lparr>target = ''h'', ports = Some [], scanType = Quick, timing = 3, additionalFlags = None\<rparr>
     = ''nmap -T3 -F h''
   \<and> spec_command (example_platform (Exited (Code 0) [] []))
     \<lparr>target = ''h'', ports = Some [], scanType = Quick, timing = 3, additionalFlags = None\<rparr>
     = ''nmap -T3 -F -p h''
   \<and> nmap_command (example_platform (Exited (Code 0) [] []))
     \<lparr>target = ''h'', ports = Some [], scanType = Quick, timing = 3, additionalFlags = None\<rparr>
     \<noteq> spec_command (example_platform (Exited (Code 0) [] []))
     \<lparr>target = ''h'', ports = Some [], scanType = Quick, timing = 3, additionalFlags = None\<rparr>"
  by (simp add: nmap_command_def spec_command_def ports_part_def additionalFlags_part_def text_defs)




text \<open>
  C3 (as amended). Validation accepts the timing field only when it is a number in the
  closed range from 0 to 5, whole or not, and takes 3 when the field is absent; a request
  with any other timing value gets an error result and leaves the world as it was, so it
  never reaches compilation; and for an accepted whole value the compiled command starts
  with the timing flag carrying that exact integer.
\<close>

theorem timing_gate:
  "(\<not> timing_acceptable (property (arguments req) ''timing'') \<longrightarrow>
      isError (fst (call_tool pf req w)) \<and> snd (call_tool pf req w) = w)
   \<and> (\<forall>params. NmapScanSchema_safeParse (arguments req) = Inr params \<longrightarrow>
        timing_acceptable (property (arguments req) ''timing'')
        \<and> timing params = timing_value (property (arguments req) ''timing'')
        \<and> (\<forall>n. n \<le> 5 \<and> timing params = of_nat n \<longrightarrow>
             (\<exists>rest. nmap_command pf params = ''nmap -T'' @ nat_text n @ CHR '' '' # rest)))"
proof (intro conjI impI allI)
  assume bad: "\<not> timing_acceptable (property (arguments req) ''timing'')"
  then obtain found where "NmapScanSchema_safeParse (arguments req) = Inl found"
    using safeParse_timing [of "arguments req"]
    by (cases "NmapScanSchema_safeParse (arguments req)") auto
  then have "call_tool pf req w =
    (error_result (''Error: '' @ (if name req = ''run_nmap_scan''
        then ''Invalid arguments for run_nmap_scan: '' @ ZodError_toString pf found
        else ''Unknown tool: '' @ name req)), w)"
    by (rule call_tool_invalid)
  then show "isError (fst (call_tool pf req w))" "snd (call_tool pf req w) = w"
    by (simp_all add: error_result_def)
next
  fix params
  assume ok: "NmapScanSchema_safeParse (arguments req) = Inr params"
  then show "timing_acceptable (property (arguments req) ''timing'')"
    and "timing params = timing_value (property (arguments req) ''timing'')"
    using safeParse_timing [OF ok] by simp_all
  fix n :: nat
  assume n: "n \<le> 5 \<and> timing params = of_nat n"
  then have "Number_toString pf (timing params) = nat_text n"
    by (simp add: Number_toString_small nat_text.simps [of n])
  then show "\<exists>rest. nmap_command pf params = ''nmap -T'' @ nat_text n @ CHR '' '' # rest"
    by (cases "scanType params") (simp_all add: nmap_command_def)
qed

theorem timing_gate_witness:
  "isError (fst (call_tool (example_platform (Exited (Code 0) ''report'' []))
      (scan_request [(''target'', JStr ''scanme.nmap.org''), (''timing'', JNum 6)]) fresh))
   \<and> snd (call_tool (example_platform (Exited (Code 0) ''report'' []))
      (scan_request [(''target'', JStr ''scanme.nmap.org''), (''timing'', JNum 6)]) fresh) = fresh
   \<and> nmap_command (example_platform (Exited (Code 0) ''report'' []))
        \<lparr>target = ''scanme.nmap.org'', ports = None, scanType = Quick, timing = 4,
          additionalFlags = None\<rparr> = ''nmap -T4 -F scanme.nmap.org''"
proof -
  let ?pf = "example_platform (Exited (Code 0) ''report'' [])"
  let ?bad = "scan_request [(''target'', JStr ''scanme.nmap.org''), (''timing'', JNum 6)]"
  let ?good = "scan_request [(''target'', JStr ''scanme.nmap.org''), (''timing'', JNum 4)]"
  let ?cfg = "\<lparr>target = ''scanme.nmap.org'', ports = None, scanType = Quick, timing = 4,
          additionalFlags = None\<rparr>"
  have bad: "\<not> timing_acceptable (property (arguments ?bad) ''timing'')"
    by (simp add: scan_request_def)
  have good: "NmapScanSchema_safeParse (arguments ?good) = Inr ?cfg"
    by (simp add: scan_request_def schema_defs)
  have four: "(4::nat) \<le> 5 \<and> timing ?cfg = of_nat 4" by simp
  have text4: "nat_text 4 = ''4''" by (simp add: nat_text.simps digit_char_def)
  from timing_gate [of ?bad ?pf fresh] bad
  have 1: "isError (fst (call_tool ?pf ?bad fresh)) \<and> snd (call_tool ?pf ?bad fresh) = fresh"
    by blast
  from timing_gate [of ?good ?pf fresh] good four
  have "\<exists>rest. nmap_command ?pf ?cfg = ''nmap -T'' @ nat_text 4 @ CHR '' '' # rest"
    by blast
  with 1 show ?thesis
    by (simp add: text4 nmap_command_def ports_part_def additionalFlags_part_def text_defs)
qed

text \<open>
  As the claim states it, only integers are accepted. The schema is
  \<^verbatim>\<open>z.number().min(0).max(5)\<close>, with no integer check: 2.5 is accepted.
\<close>

theorem fractional_timing_counterexample:
  "NmapScanSchema_safeParse (Some (JObj [(''target'', JStr ''h''), (''timing'', JNum (5 / 2))]))
     = Inr \<lparr>target = ''h'', ports = None, scanType = Quick, timing = 5 / 2, additionalFlags = None\<rparr>
   \<and> \<not> whole (5 / 2)"
proof -
  have "\<not> whole (5 / 2)" by code_simp
  then show ?thesis by (simp add: schema_defs)
qed

text \<open>
  C4 (as amended). Validation requires the target field to be present and a string: a
  request whose target is absent or not a string gets an error result and leaves the world
  as it was, so it never reaches compilation; an accepted configuration carries the
  payload's target string, which may be empty.
\<close>

theorem target_gate:
  "(\<not> target_acceptable (property (arguments req) ''target'') \<longrightarrow>
      isError (fst (call_tool pf req w)) \<and> snd (call_tool pf req w) = w)
   \<and> (\<forall>params. NmapScanSchema_safeParse (arguments req) = Inr params \<longrightarrow>
        property (arguments req) ''target'' = Some (JStr (target params)))"
proof (intro conjI impI allI)
  assume bad: "\<not> target_acceptable (property (arguments req) ''target'')"
  then obtain found where "NmapScanSchema_safeParse (arguments req) = Inl found"
    using safeParse_target [of "arguments req"]
    by (cases "NmapScanSchema_safeParse (arguments req)") auto
  then have "call_tool pf req w =
    (error_result (''Error: '' @ (if name req = ''run_nmap_scan''
        then ''Invalid arguments for run_nmap_scan: '' @ ZodError_toString pf found
        else ''Unknown tool: '' @ name req)), w)"
    by (rule call_tool_invalid)
  then show "isError (fst (call_tool pf req w))" "snd (call_tool pf req w) = w"
    by (simp_all add: error_result_def)
next
  fix params
  assume "NmapScanSchema_safeParse (arguments req) = Inr params"
  then show "property (arguments req) ''target'' = Some (JStr (target params))"
    by (rule safeParse_target)
qed

theorem target_gate_witness:
  "isError (fst (call_tool (example_platform (Exited (Code 0) ''report'' []))
      (scan_request [(''target'', JNum 10), (''ports'', JStr ''80'')]) fresh))
   \<and> snd (call_tool (example_platform (Exited (Code 0) ''report'' []))
      (scan_request [(''target'', JNum 10), (''ports'', JStr ''80'')]) fresh) = fresh
   \<and> property (arguments (scan_request [(''target'', JStr ''10.0.0.1'')])) ''target''
      = Some (JStr ''10.0.0.1'')"
proof -
  let ?pf = "example_platform (Exited (Code 0) ''report'' [])"
  let ?bad = "scan_request [(''target'', JNum 10), (''ports'', JStr ''80'')]"
  let ?good = "scan_request [(''target'', JStr ''10.0.0.1'')]"
  let ?cfg = "\<lparr>target = ''10.0.0.1'', ports = None, scanType = Quick, timing = 3,
          additionalFlags = None\<rparr>"
  have bad: "\<not> target_acceptable (property (arguments ?bad) ''target'')"
    by (simp add: scan_request_def)
  have good: "NmapScanSchema_safeParse (arguments ?good) = Inr ?cfg"
    by (simp add: scan_request_def schema_defs)
  from target_gate [of ?bad ?pf fresh] bad
  have 1: "isError (fst (call_tool ?pf ?bad fresh)) \<and> snd (call_tool ?pf ?bad fresh) = fresh"
    by blast
  from target_gate [of ?good ?pf fresh] good
  have "property (arguments ?good) ''target'' = Some (JStr (target ?cfg))"
    by blast
  with 1 show ?thesis by simp
qed

text \<open>
  As the claim states it, the empty string is rejected. \<^verbatim>\<open>z.string()\<close> has no minimum
  length: the empty target is accepted and compiled into a command.
\<close>

theorem empty_target_counterexample:
  "NmapScanSchema_safeParse (arguments (scan_request [(''target'', JStr [])]))
     = Inr \<lparr>target = [], ports = None, scanType = Quick, timing = 3, additionalFlags = None\<rparr>
   \<and> call_tool (example_platform (Exited (Code 0) ''report'' []))
       (scan_request [(''target'', JStr [])]) fresh
     = (success_result ''report'', \<lparr>launched = [''nmap -T3 -F ''], diagnostics = []\<rparr>)"
  by (simp add: run_defs schema_defs text_defs)

text \<open>
  C5. When the argument payload of a call fails validation, the result envelope is an
  error result and no command is handed to the process layer.
\<close>

theorem invalid_payload_launches_nothing:
  assumes "NmapScanSchema_safeParse (arguments req) = Inl found"
  shows "isError (fst (call_tool pf req w)) \<and> launched (snd (call_tool pf req w)) = launched w"
  using call_tool_invalid [OF assms, of pf w] by (simp add: error_result_def)

theorem invalid_payload_launches_nothing_witness:
  "NmapScanSchema_safeParse (arguments (scan_request [(''scanType'', JStr ''bogus'')]))
     = Inl [Issue [''target''] (Invalid_type ''string'' T_undefined),
            Issue [''scanType''] (Invalid_enum_value [''quick'', ''full'', ''version''] ''bogus'')]
   \<and> isError (fst (call_tool (example_platform (Exited (Code 0) ''report'' []))
        (scan_request [(''scanType'', JStr ''bogus'')]) fresh))
   \<and> launched (snd (call_tool (example_platform (Exited (Code 0) ''report'' []))
        (scan_request [(''scanType'', JStr ''bogus'')]) fresh)) = []"
proof -
  let ?req = "scan_request [(''scanType'', JStr ''bogus'')]"
  have h: "NmapScanSchema_safeParse (arguments ?req)
     = Inl [Issue [''target''] (Invalid_type ''string'' T_undefined),
            Issue [''scanType''] (Invalid_enum_value [''quick'', ''full'', ''version''] ''bogus'')]"
    by (simp add: scan_request_def schema_defs)
  show ?thesis
    using h invalid_payload_launches_nothing [OF h, of "example_platform (Exited (Code 0) ''report'' [])" fresh]
    by (simp add: fresh_def)
qed



text \<open>
  C7. When the process layer reports the invocation as failed, the result envelope is an
  error result whose only content is the text \<^verbatim>\<open>Error: Nmap scan failed: \<close> followed by
  the message of the underlying failure; no captured output is part of it.
\<close>

theorem failed_invocation_is_error:
  assumes "name req = ''run_nmap_scan''"
    and "NmapScanSchema_safeParse (arguments req) = Inr params"
    and "execAsync pf (nmap_command pf params) = Rejected e"
  shows "call_tool pf req w =
    (\<lparr>content = [\<lparr>ctype = ''text'', ctext = ''Error: Nmap scan failed: '' @ errorMessage e\<rparr>],
      isError = True\<rparr>,
     w\<lparr>launched := launched w @ [nmap_command pf params]\<rparr>)"
  using call_tool_valid [OF assms(1,2), of pf w] assms(3) by (simp add: error_result_def)

theorem failed_invocation_is_error_witness:
  "execAsync (example_platform (Errored ''spawn /bin/sh ENOENT'')) ''nmap -T3 -F scanme.nmap.org''
     = Rejected (Error_object ''spawn /bin/sh ENOENT'')
   \<and> call_tool (example_platform (Errored ''spawn /bin/sh ENOENT''))
       (scan_request [(''target'', JStr ''scanme.nmap.org'')]) fresh
     = (\<lparr>content = [\<lparr>ctype = ''text'',
                      ctext = ''Error: Nmap scan failed: spawn /bin/sh ENOENT''\<rparr>],
         isError = True\<rparr>,
        \<lparr>launched = [''nmap -T3 -F scanme.nmap.org''], diagnostics = []\<rparr>)"
proof -
  let ?pf = "example_platform (Errored ''spawn /bin/sh ENOENT'')"
  let ?req = "scan_request [(''target'', JStr ''scanme.nmap.org'')]"
  let ?cfg = "\<lparr>target = ''scanme.nmap.org'', ports = None, scanType = Quick, timing = 3,
          additionalFlags = None\<rparr>"
  have n: "name ?req = ''run_nmap_scan''" by (simp add: scan_request_def)
  have p: "NmapScanSchema_safeParse (arguments ?req) = Inr ?cfg"
    by (simp add: scan_request_def schema_defs)
  have c: "nmap_command ?pf ?cfg = ''nmap -T3 -F scanme.nmap.org''"
    by (simp add: nmap_command_def ports_part_def additionalFlags_part_def text_defs)
  have x: "execAsync ?pf (nmap_command ?pf ?cfg) = Rejected (Error_object ''spawn /bin/sh ENOENT'')"
    by (simp add: execAsync_def example_platform_def)
  show ?thesis
    using failed_invocation_is_error [OF n p x, of fresh] x c by (simp add: fresh_def)
qed

text \<open>
  C8. When the invocation succeeds with text on standard error, the result envelope is a
  success result whose only content is the captured standard output; the standard error
  goes to the diagnostic channel and nowhere else.
\<close>

theorem success_payload_is_stdout:
  assumes "name req = ''run_nmap_scan''"
    and "NmapScanSchema_safeParse (arguments req) = Inr params"
    and "execAsync pf (nmap_command pf params) = Resolved out err"
    and "err \<noteq> []"
  shows "call_tool pf req w =
    (\<lparr>content = [\<lparr>ctype = ''text'', ctext = out\<rparr>], isError = False\<rparr>,
     w\<lparr>launched := launched w @ [nmap_command pf params],
       diagnostics := diagnostics w @ [''Nmap stderr: '' @ err]\<rparr>)"
  using call_tool_valid [OF assms(1,2), of pf w] assms(3,4) by (simp add: success_result_def)

theorem success_payload_is_stdout_witness:
  "execAsync (example_platform (Exited (Code 0) ''22/tcp open ssh'' ''Warning: slow host''))
       ''nmap -T3 -sV -p22 scanme.nmap.org''
     = Resolved ''22/tcp open ssh'' ''Warning: slow host''
   \<and> call_tool (example_platform (Exited (Code 0) ''22/tcp open ssh'' ''Warning: slow host''))
       (scan_request [(''target'', JStr ''scanme.nmap.org''), (''scanType'', JStr ''version''),
          (''ports'', JStr ''22'')]) fresh
     = (\<lparr>content = [\<lparr>ctype = ''text'', ctext = ''22/tcp open ssh''\<rparr>], isError = False\<rparr>,
        \<lparr>launched = [''nmap -T3 -sV -p22 scanme.nmap.org''],
          diagnostics = [''Nmap stderr: Warning: slow host'']\<rparr>)"
proof -
  let ?pf = "example_platform (Exited (Code 0) ''22/tcp open ssh'' ''Warning: slow host'')"
  let ?req = "scan_request [(''target'', JStr ''scanme.nmap.org''), (''scanType'', JStr ''version''),
          (''ports'', JStr ''22'')]"
  let ?cfg = "\<lparr>target = ''scanme.nmap.org'', ports = Some ''22'', scanType = Version, timing = 3,
          additionalFlags = None\<rparr>"
  have n: "name ?req = ''run_nmap_scan''" by (simp add: scan_request_def)
  have p: "NmapScanSchema_safeParse (arguments ?req) = Inr ?cfg"
    by (simp add: scan_request_def schema_defs)
  have c: "nmap_command ?pf ?cfg = ''nmap -T3 -sV -p22 scanme.nmap.org''"
    by (simp add: nmap_command_def ports_part_def additionalFlags_part_def text_defs)
  have x: "execAsync ?pf (nmap_command ?pf ?cfg) = Resolved ''22/tcp open ssh'' ''Warning: slow host''"
    by (simp add: execAsync_def example_platform_def)
  have e: "''Warning: slow host'' \<noteq> []" by simp
  show ?thesis
    using success_payload_is_stdout [OF n p x e, of fresh] x c by (simp add: fresh_def)
qed

text \<open>
  C9. When \<^verbatim>\<open>ports\<close> (or \<^verbatim>\<open>additionalFlags\<close>) is present but the empty string, the
  compiled command is the one of the same configuration with the field absent: the test
  is the truthiness of the string, not the presence of the field.
\<close>

theorem empty_field_compiles_as_absent:
  "nmap_command pf (params\<lparr>ports := Some []\<rparr>) = nmap_command pf (params\<lparr>ports := None\<rparr>)
   \<and> nmap_command pf (params\<lparr>additionalFlags := Some []\<rparr>)
       = nmap_command pf (params\<lparr>additionalFlags := None\<rparr>)"
  by (simp add: nmap_command_def ports_part_def additionalFlags_part_def)

text \<open>
  C10. When the child process starts and exits with a status other than 0, the result
  envelope is an error result with the scan-step prefix and the process layer's message
  (\<^verbatim>\<open>Command failed: \<close>, the command, a newline, the standard error); the captured
  standard output is not returned.
\<close>

theorem nonzero_exit_is_error:
  assumes "name req = ''run_nmap_scan''"
    and "NmapScanSchema_safeParse (arguments req) = Inr params"
    and "spawn pf (nmap_command pf params) = Exited (Code c) out err"
    and "c \<noteq> 0"
  shows "call_tool pf req w =
    (\<lparr>content = [\<lparr>ctype = ''text'',
                    ctext = ''Error: Nmap scan failed: Command failed: ''
                      @ nmap_command pf params @ [CHR 0x0A] @ err\<rparr>],
      isError = True\<rparr>,
     w\<lparr>launched := launched w @ [nmap_command pf params]\<rparr>)"
proof -
  from assms(3,4) have "execAsync pf (nmap_command pf params)
      = Rejected (Error_object (''Command failed: '' @ nmap_command pf params @ [CHR 0x0A] @ err))"
    by (simp add: execAsync_def)
  with call_tool_valid [OF assms(1,2), of pf w] show ?thesis
    by (simp add: error_result_def)
qed

theorem nonzero_exit_is_error_witness:
  "call_tool (example_platform (Exited (Code 1) ''Starting Nmap'' ''Failed to resolve host''))
       (scan_request [(''target'', JStr ''nowhere.invalid'')]) fresh
     = (\<lparr>content = [\<lparr>ctype = ''text'',
                      ctext = ''Error: Nmap scan failed: Command failed: nmap -T3 -F nowhere.invalid''
                        @ [CHR 0x0A] @ ''Failed to resolve host''\<rparr>],
         isError = True\<rparr>,
        \<lparr>launched = [''nmap -T3 -F nowhere.invalid''], diagnostics = []\<rparr>)"
proof -
  let ?pf = "example_platform (Exited (Code 1) ''Starting Nmap'' ''Failed to resolve host'')"
  let ?req = "scan_request [(''target'', JStr ''nowhere.invalid'')]"
  let ?cfg = "\<lparr>target = ''nowhere.invalid'', ports = None, scanType = Quick, timing = 3,
          additionalFlags = None\<rparr>"
  have n: "name ?req = ''run_nmap_scan''" by (simp add: scan_request_def)
  have p: "NmapScanSchema_safeParse (arguments ?req) = Inr ?cfg"
    by (simp add: scan_request_def schema_defs)
  have c: "nmap_command ?pf ?cfg = ''nmap -T3 -F nowhere.invalid''"
    by (simp add: nmap_command_def ports_part_def additionalFlags_part_def text_defs)
  have x: "spawn ?pf (nmap_command ?pf ?cfg) = Exited (Code 1) ''Starting Nmap'' ''Failed to resolve host''"
    by (simp add: example_platform_def)
  have nz: "(1::int) \<noteq> 0" by simp
  show ?thesis
    using nonzero_exit_is_error [OF n p x nz, of fresh] c by (simp add: fresh_def)
qed

end
